theory Spec2Isabelle
  imports Main "HOL-Library.Multiset" "HOL-Library.Sublist" "HOL-Library.AList"
begin

section \<open>Strings\<close>

text \<open>
  A Python \<open>str\<close> is modelled as a \<open>string\<close> whose characters are the code points
  0..255 (Latin-1). The character classes below are Python's, restricted to that range.
\<close>

definition py_decimal :: "char \<Rightarrow> bool" where
  \<comment> \<open>the class \<open>\d\<close> of \<open>re\<close>, and the digits \<open>int()\<close> accepts\<close>
  "py_decimal c = (48 \<le> (of_char c :: nat) \<and> (of_char c :: nat) \<le> 57)"

definition py_isdigit_char :: "char \<Rightarrow> bool" where
  \<comment> \<open>\<open>str.isdigit\<close> on one character: decimal digits and superscript 2, 3, 1\<close>
  "py_isdigit_char c =
     (py_decimal c \<or> (of_char c :: nat) = 178 \<or> (of_char c :: nat) = 179
        \<or> (of_char c :: nat) = 185)"

definition str_isdigit :: "string \<Rightarrow> bool" where
  "str_isdigit s = (s \<noteq> [] \<and> list_all py_isdigit_char s)"

definition py_isspace :: "char \<Rightarrow> bool" where
  \<comment> \<open>the characters \<open>int()\<close> strips from both ends of a string: tab to carriage return,
      space, and the two spaces of Latin-1 beyond ASCII\<close>
  "py_isspace c = ((of_char c :: nat) \<in> {9, 10, 11, 12, 13, 32, 133, 160})"

definition char_lower :: "char \<Rightarrow> char" where
  "char_lower c =
     (let n = (of_char c :: nat)
      in if (65 \<le> n \<and> n \<le> 90) \<or> (192 \<le> n \<and> n \<le> 222 \<and> n \<noteq> 215)
         then char_of (n + 32) else c)"

definition str_lower :: "string \<Rightarrow> string" where
  "str_lower s = map char_lower s"

definition digit_value :: "char \<Rightarrow> nat" where
  "digit_value c = of_char c - 48"

definition digits_value :: "string \<Rightarrow> nat" where
  \<comment> \<open>\<open>int(ds)\<close> for a string of decimal digits\<close>
  "digits_value ds = foldl (\<lambda>a c. 10 * a + digit_value c) 0 ds"

fun str_nat :: "nat \<Rightarrow> string" where
  \<comment> \<open>\<open>str(n)\<close> for \<open>n \<ge> 0\<close>\<close>
  "str_nat n =
     (if n < 10 then [char_of (48 + n)]
      else str_nat (n div 10) @ [char_of (48 + n mod 10)])"

declare str_nat.simps [simp del]


definition fmt03d :: "nat \<Rightarrow> string" where
  \<comment> \<open>the format \<open>{n:03d}\<close>\<close>
  "fmt03d n = replicate (3 - length (str_nat n)) (CHR ''0'') @ str_nat n"

definition rfind :: "char \<Rightarrow> string \<Rightarrow> int" where
  \<comment> \<open>\<open>s.rfind(c)\<close>: the last index of \<open>c\<close>, or -1\<close>
  "rfind c s = int (length s) - 1 - int (length (takeWhile (\<lambda>x. x \<noteq> c) (rev s)))"

definition splitext :: "string \<Rightarrow> string \<times> string" where
  \<comment> \<open>\<open>os.path.splitext\<close> (POSIX): the extension starts at the last dot after the last
      separator, unless only dots precede it in the file name\<close>
  "splitext p =
     (let sepIndex = rfind (CHR ''/'') p;
          dotIndex = rfind (CHR ''.'') p
      in if dotIndex > sepIndex \<and>
            list_ex (\<lambda>i. p ! i \<noteq> CHR ''.'') [nat (sepIndex + 1) ..< nat dotIndex]
         then (take (nat dotIndex) p, drop (nat dotIndex) p)
         else (p, []))"

definition image_extensions :: "string set" where
  "image_extensions = {''.jpg'', ''.jpeg'', ''.png'', ''.gif'', ''.bmp'', ''.webp''}"

section \<open>Regular expressions of the script\<close>

text \<open>
  The names matched are names of directory entries, which a file system keeps well below
  the number of digits at which \<open>int()\<close> gives up (\<open>max_str_digits\<close> in the section on the
  command line), so \<open>int(match.group(1))\<close> is the value of the digits.
\<close>

definition chapter_match :: "string \<Rightarrow> nat option" where
  \<comment> \<open>\<open>re.match(r'Chapter (\d+)', item)\<close> and \<open>int(match.group(1))\<close>: the pattern is
      matched at the start of the name, and nothing is asked of what follows the digits\<close>
  "chapter_match item =
     (if take 8 item = ''Chapter '' then
        (let ds = takeWhile py_decimal (drop 8 item)
         in if ds = [] then None else Some (digits_value ds))
      else None)"


section \<open>The file system\<close>

text \<open>
  A path is the list of its components from the root, and \<open>os.path.join p name\<close> adds
  one component. The file system is an association list from paths to nodes; a
  directory lists its entries in the order of that list, which stands for the
  arbitrary order of \<open>os.listdir\<close>. A file holds bytes or, for an archive, the
  entries written to it.
\<close>

type_synonym path = "string list"

datatype fdata = Bytes string | Zip "(string \<times> fdata) list"

datatype node = Dir | File fdata

type_synonym filesys = "(path \<times> node) list"

datatype fault = Fail_clean | Fail_partial fdata

datatype zfault = Zip_ok | Zip_open_fails | Zip_write_fails nat

datatype oserror = OSError

record env =
  response :: string
  unreadable :: "path \<Rightarrow> bool"
  copy_fault :: "path \<Rightarrow> path \<Rightarrow> fault option"
  zip_fault :: zfault

definition path_exists :: "filesys \<Rightarrow> path \<Rightarrow> bool" where
  "path_exists fs p = (map_of fs p \<noteq> None)"

definition isdir :: "filesys \<Rightarrow> path \<Rightarrow> bool" where
  "isdir fs p = (map_of fs p = Some Dir)"


definition entries :: "filesys \<Rightarrow> path \<Rightarrow> string list" where
  "entries fs p = map (\<lambda>(q, n). last q) (filter (\<lambda>(q, n). q \<noteq> [] \<and> butlast q = p) fs)"

definition listdir :: "env \<Rightarrow> filesys \<Rightarrow> path \<Rightarrow> oserror + string list" where
  \<comment> \<open>\<open>os.listdir\<close>: raises \<open>OSError\<close> on what is not a directory or cannot be read\<close>
  "listdir e fs p = (if isdir fs p \<and> \<not> unreadable e p then Inr (entries fs p) else Inl OSError)"

section \<open>Chapter Locator and Page Enumerator\<close>

fun scan_chapters :: "filesys \<Rightarrow> path \<Rightarrow> int \<Rightarrow> int \<Rightarrow> string list \<Rightarrow> (int \<times> path) list" where
  "scan_chapters fs base_path start_chapter end_chapter [] = []"
| "scan_chapters fs base_path start_chapter end_chapter (item # items) =
     (let item_path = base_path @ [item];
          rest = scan_chapters fs base_path start_chapter end_chapter items
      in if isdir fs item_path then
           (case chapter_match item of
              Some n \<Rightarrow>
                (let chapter_num = int n
                 in if start_chapter \<le> chapter_num \<and> chapter_num \<le> end_chapter
                    then (chapter_num, item_path) # rest else rest)
            | None \<Rightarrow> rest)
         else rest)"

definition find_chapter_folders ::
  "env \<Rightarrow> filesys \<Rightarrow> path \<Rightarrow> int \<Rightarrow> int \<Rightarrow> oserror + (int \<times> path) list" where
  "find_chapter_folders e fs base_path start_chapter end_chapter =
     (case listdir e fs base_path of
        Inl err \<Rightarrow> Inl err
      | Inr items \<Rightarrow>
          Inr (sort_key fst (scan_chapters fs base_path start_chapter end_chapter items)))"



section \<open>File system operations\<close>

text \<open>
  An operation that can raise returns \<open>Inl\<close>. Operations fail where the structure of the
  file system makes them fail (removing what is not a file, deleting the tree of what is
  not a directory, creating what exists), and where the environment says so: a folder
  that cannot be read, a copy that fails (leaving nothing, or a partial destination), an
  archive that cannot be opened or whose \<open>k\<close>-th write fails.
\<close>

definition basename :: "path \<Rightarrow> string" where
  "basename p = (if p = [] then [] else last p)"

definition path_string :: "path \<Rightarrow> string" where
  "path_string p = concat (map (\<lambda>c. CHR ''/'' # c) p)"




definition write_file :: "filesys \<Rightarrow> path \<Rightarrow> fdata \<Rightarrow> filesys" where
  "write_file fs p d = AList.update p (File d) fs"

definition copy2 :: "env \<Rightarrow> filesys \<Rightarrow> path \<Rightarrow> path \<Rightarrow> filesys + filesys" where
  \<comment> \<open>\<open>shutil.copy2(src, dst)\<close>; \<open>Inl\<close> is the file system a copy that raised leaves\<close>
  "copy2 e fs src dst0 =
     (let dst = (if isdir fs dst0 then dst0 @ [basename src] else dst0)
      in if src = dst then Inl fs
         else (case map_of fs src of
                 Some (File d) \<Rightarrow>
                   if dst = [] \<or> isdir fs dst \<or> \<not> isdir fs (butlast dst) then Inl fs
                   else (case copy_fault e src dst of
                           Some Fail_clean \<Rightarrow> Inl fs
                         | Some (Fail_partial d') \<Rightarrow> Inl (write_file fs dst d')
                         | None \<Rightarrow> Inr (write_file fs dst d))
               | _ \<Rightarrow> Inl fs))"






section \<open>The merge\<close>

text \<open>
  The messages \<open>merge_chapters\<close> prints, and its one prompt, are recorded as events in
  the order they are printed.
\<close>

datatype event =
    Prompt_overwrite string
  | Operation_cancelled
  | Cover_not_found
  | Invalid_cover_format string
  | Using_cover string
  | Created_temporary_folder path
  | No_chapters_found
  | Found_chapters nat
  | Listed_chapter int string
  | Processing_cover
  | Cover_placed string string
  | Error_copying_cover
  | Processing_chapter int
  | No_image_files int
  | Found_pages nat
  | Page_placed string string
  | Error_copying string
  | Creating_cbz string
  | Added_to_cbz string
  | Successfully_created
  | Total_pages nat
  | Cleaning_up
  | Error_creating_cbz


record mstate =
  fsys :: filesys
  page_counter :: nat
  total_pages :: nat
  trace :: "event list"



definition validate_cover :: "filesys \<Rightarrow> path option \<Rightarrow> event + event list" where
  \<comment> \<open>lines 93-106: \<open>Inl\<close> is the message of the failed check\<close>
  "validate_cover fs cover_image_path =
     (case cover_image_path of
        None \<Rightarrow> Inr []
      | Some c \<Rightarrow>
          if \<not> path_exists fs c then Inl Cover_not_found
          else (let ext = snd (splitext (str_lower (path_string c)))
                in if ext \<notin> image_extensions then Inl (Invalid_cover_format ext)
                   else Inr [Using_cover (basename c)]))"


definition copy_cover :: "env \<Rightarrow> path option \<Rightarrow> path \<Rightarrow> mstate \<Rightarrow> mstate + mstate" where
  \<comment> \<open>lines 131-144: \<open>Inl\<close> is the state at \<open>return False\<close>\<close>
  "copy_cover e cover_image_path output_path s =
     (case cover_image_path of
        None \<Rightarrow> Inr s
      | Some c \<Rightarrow>
          (let ext = snd (splitext (str_lower (path_string c)));
               cover_name = fmt03d (page_counter s) @ ext;
               cover_dest = output_path @ [cover_name]
           in case copy2 e (fsys s) c cover_dest of
                Inr fs' \<Rightarrow>
                  Inr (s\<lparr>fsys := fs',
                         trace := trace s @ [Processing_cover, Cover_placed (basename c) cover_name],
                         page_counter := page_counter s + 1,
                         total_pages := total_pages s + 1\<rparr>)
              | Inl fs' \<Rightarrow>
                  Inl (s\<lparr>fsys := fs',
                         trace := trace s @ [Processing_cover, Error_copying_cover]\<rparr>)))"











section \<open>The command line\<close>

definition strip :: "string \<Rightarrow> string" where
  "strip s = rev (dropWhile py_isspace (rev (dropWhile py_isspace s)))"

fun digits_ok :: "string \<Rightarrow> bool" where
  \<comment> \<open>decimal digits, with single underscores between digits\<close>
  "digits_ok [] = False"
| "digits_ok [c] = py_decimal c"
| "digits_ok (c # d # r) =
     (py_decimal c \<and> (if d = CHR ''_'' then digits_ok r else digits_ok (d # r)))"

definition max_str_digits :: nat where
  \<comment> \<open>the default of \<open>sys.get_int_max_str_digits()\<close>\<close>
  "max_str_digits = 4300"

definition py_int :: "string \<Rightarrow> int option" where
  \<comment> \<open>\<open>int(s)\<close> on a string; \<open>None\<close> is \<open>ValueError\<close>, also raised for more digits than
      \<open>max_str_digits\<close>\<close>
  "py_int s =
     (let t = strip s;
          neg = (t \<noteq> [] \<and> hd t = CHR ''-'');
          body = (if t \<noteq> [] \<and> (hd t = CHR ''-'' \<or> hd t = CHR ''+'') then tl t else t);
          digits = filter (\<lambda>c. c \<noteq> CHR ''_'') body
      in if digits_ok body \<and> length digits \<le> max_str_digits
         then (let v = int (digits_value digits)
               in Some (if neg then - v else v))
         else None)"

datatype parsed =
    Usage_exit
  | Not_enough_arguments
  | Value_error
  | Start_after_end
  | Parsed "string option" int int "string option"

definition check_range :: "string option \<Rightarrow> int \<Rightarrow> int \<Rightarrow> string option \<Rightarrow> parsed" where
  "check_range cover_image_path start_chapter end_chapter output_folder =
     (if start_chapter > end_chapter then Start_after_end
      else Parsed cover_image_path start_chapter end_chapter output_folder)"

definition parse_args :: "string list \<Rightarrow> parsed" where
  \<comment> \<open>lines 215-256 of \<open>main\<close>, on \<open>sys.argv[1:]\<close>\<close>
  "parse_args args =
     (if length args < 2 then Usage_exit
      else if \<not> str_isdigit (args ! 0) then
        (if length args < 3 then Not_enough_arguments
         else (case py_int (args ! 1) of
                 None \<Rightarrow> Value_error
               | Some start_chapter \<Rightarrow>
                   (case py_int (args ! 2) of
                      None \<Rightarrow> Value_error
                    | Some end_chapter \<Rightarrow>
                        check_range (Some (args ! 0)) start_chapter end_chapter
                          (if length args > 3 then Some (args ! 3) else None))))
      else (case py_int (args ! 0) of
              None \<Rightarrow> Value_error
            | Some start_chapter \<Rightarrow>
                (case py_int (args ! 1) of
                   None \<Rightarrow> Value_error
                 | Some end_chapter \<Rightarrow>
                     check_range None start_chapter end_chapter
                       (if length args > 2 then Some (args ! 2) else None))))"


section \<open>Example inputs and readings of the specification\<close>

definition quiet_env :: env where
  \<comment> \<open>an environment in which nothing fails and the overwrite prompt is refused\<close>
  "quiet_env = \<lparr>response = ''n'', unreadable = (\<lambda>p. False),
                 copy_fault = (\<lambda>src dst. None), zip_fault = Zip_ok\<rparr>"

definition literal_chapter_name :: "string \<Rightarrow> bool" where
  \<comment> \<open>the specification's "directories literally named \<open>Chapter <integer>\<close>"\<close>
  "literal_chapter_name s =
     (take 8 s = ''Chapter '' \<and> drop 8 s \<noteq> [] \<and> list_all py_decimal (drop 8 s))"

definition fs_chapters :: filesys where
  "fs_chapters =
     [([''b''], Dir), ([''b'', ''Chapter 7''], Dir), ([''b'', ''Chapter 5x''], Dir),
      ([''b'', ''Chapter 6''], File (Bytes ''f'')), ([''b'', ''Chapter 12''], Dir)]"



section \<open>Reading a run\<close>

fun placed_name :: "event \<Rightarrow> string list" where
  "placed_name (Cover_placed b n) = [n]"
| "placed_name (Page_placed b n) = [n]"
| "placed_name ev = []"

definition placed_names :: "event list \<Rightarrow> string list" where
  \<comment> \<open>the entry names given to the cover and the pages that were placed, in order\<close>
  "placed_names tr = concat (map placed_name tr)"


fun added_name :: "event \<Rightarrow> string list" where
  "added_name (Added_to_cbz n) = [n]"
| "added_name ev = []"

definition added_names :: "event list \<Rightarrow> string list" where
  \<comment> \<open>the names the archive step reports as added, in order\<close>
  "added_names tr = concat (map added_name tr)"

fun archive_event :: "event \<Rightarrow> bool" where
  "archive_event (Creating_cbz n) = True"
| "archive_event (Added_to_cbz n) = True"
| "archive_event Successfully_created = True"
| "archive_event (Total_pages n) = True"
| "archive_event Cleaning_up = True"
| "archive_event Error_creating_cbz = True"
| "archive_event ev = False"

fun prompt_event :: "event \<Rightarrow> bool" where
  "prompt_event (Prompt_overwrite n) = True"
| "prompt_event ev = False"
















section \<open>Strings: digits, lower case, extensions\<close>

lemma takeWhile_append_stop:
  "\<forall>x\<in>set xs. P x \<Longrightarrow> ys = [] \<or> \<not> P (hd ys) \<Longrightarrow> takeWhile P (xs @ ys) = xs"
  by (cases ys) (simp_all add: takeWhile_append2)
















section \<open>The patterns and the two scans\<close>

lemma chapter_match_iff:
  "chapter_match item = Some n \<longleftrightarrow>
     (\<exists>ds rest. item = ''Chapter '' @ ds @ rest \<and> ds \<noteq> [] \<and> list_all py_decimal ds
        \<and> (rest = [] \<or> \<not> py_decimal (hd rest)) \<and> n = digits_value ds)"
proof
  assume m: "chapter_match item = Some n"
  let ?ds = "takeWhile py_decimal (drop 8 item)"
  let ?rest = "dropWhile py_decimal (drop 8 item)"
  from m have pre: "take 8 item = ''Chapter ''" and ne: "?ds \<noteq> []" and n: "n = digits_value ?ds"
    by (auto simp: chapter_match_def Let_def split: if_splits)
  have "item = take 8 item @ ?ds @ ?rest" by simp
  with pre have "item = ''Chapter '' @ ?ds @ ?rest" by simp
  moreover have "list_all py_decimal ?ds"
    by (auto simp: list_all_iff dest: set_takeWhileD)
  moreover have "?rest = [] \<or> \<not> py_decimal (hd ?rest)"
    using hd_dropWhile [of py_decimal "drop 8 item"] by blast
  ultimately show "\<exists>ds rest. item = ''Chapter '' @ ds @ rest \<and> ds \<noteq> [] \<and> list_all py_decimal ds
        \<and> (rest = [] \<or> \<not> py_decimal (hd rest)) \<and> n = digits_value ds"
    using ne n by blast
next
  assume "\<exists>ds rest. item = ''Chapter '' @ ds @ rest \<and> ds \<noteq> [] \<and> list_all py_decimal ds
        \<and> (rest = [] \<or> \<not> py_decimal (hd rest)) \<and> n = digits_value ds"
  then obtain ds rest where item: "item = ''Chapter '' @ ds @ rest" and ne: "ds \<noteq> []"
    and ds: "list_all py_decimal ds" and rest: "rest = [] \<or> \<not> py_decimal (hd rest)"
    and n: "n = digits_value ds" by blast
  from ds rest have "takeWhile py_decimal (ds @ rest) = ds"
    by (intro takeWhile_append_stop) (simp_all add: list_all_iff)
  with item ne n show "chapter_match item = Some n"
    by (simp add: chapter_match_def)
qed



lemma set_scan_chapters:
  "set (scan_chapters fs base s t items) =
     {(int n, base @ [item]) | n item. item \<in> set items \<and> isdir fs (base @ [item])
        \<and> chapter_match item = Some n \<and> s \<le> int n \<and> int n \<le> t}"
  by (induction items) (auto simp: Let_def split: option.splits)



section \<open>File system operations: what a lookup finds afterwards\<close>









lemma write_file_entries:
  "(q, n) \<in> set (write_file fs p d) \<Longrightarrow> (q, n) \<in> set fs \<or> q = p"
  unfolding write_file_def
  by (induction fs) (auto split: if_splits)



section \<open>Reading a run: names, indices, frames\<close>

lemma placed_names_append [simp]: "placed_names (a @ b) = placed_names a @ placed_names b"
  by (simp add: placed_names_def)

lemma placed_names_Nil [simp]: "placed_names [] = []"
  by (simp add: placed_names_def)

lemma placed_names_Cons [simp]: "placed_names (ev # tr) = placed_name ev @ placed_names tr"
  by (simp add: placed_names_def)

lemma added_names_append [simp]: "added_names (a @ b) = added_names a @ added_names b"
  by (simp add: added_names_def)

lemma added_names_Nil [simp]: "added_names [] = []"
  by (simp add: added_names_def)

lemma added_names_Cons [simp]: "added_names (ev # tr) = added_name ev @ added_names tr"
  by (simp add: added_names_def)

lemma added_names_map [simp]: "added_names (map Added_to_cbz ns) = ns"
  by (induction ns) simp_all

lemma placed_names_added [simp]: "placed_names (map Added_to_cbz ns) = []"
  by (induction ns) simp_all





section \<open>The copy loops: frame and counters\<close>










section \<open>The copy loops: the events they record\<close>




lemma copy_cover_failed_names:
  "copy_cover e cover out s = Inl s' \<Longrightarrow> placed_names (trace s') = placed_names (trace s)"
  by (cases cover) (auto simp: copy_cover_def Let_def split: sum.splits)


section \<open>Before and after staging\<close>






lemma validate_cover_Inl:
  "validate_cover fs cover = Inl ev \<Longrightarrow> \<not> archive_event ev \<and> \<not> prompt_event ev \<and> placed_name ev = []"
  by (auto simp: validate_cover_def Let_def split: option.splits if_splits)













section \<open>The course of a merge\<close>
















section \<open>What the trace of a run tells\<close>



lemma added_names_map_comp [simp]: "added_names (map (Added_to_cbz \<circ> f) xs) = map f xs"
  by (induction xs) simp_all

lemma placed_names_added_comp [simp]: "placed_names (map (Added_to_cbz \<circ> f) xs) = []"
  by (induction xs) simp_all






section \<open>Messages printed before a run\<close>







section \<open>Example runs\<close>









section \<open>C1: a failure while the archive is written\<close>




section \<open>C2: the staging directory after an early exit\<close>


section \<open>C3: chapters without pages\<close>




section \<open>C4: the page indices\<close>



section \<open>C5: the Chapter Locator\<close>

text \<open>
  C5, as stated, fails: \<open>find_chapter_folders\<close> matches the pattern at the start of the
  name only, so a directory named \<open>Chapter 5x\<close>, which is not of the form
  \<open>Chapter <integer>\<close>, is returned as chapter 5.
\<close>

theorem C5_counterexample:
  "find_chapter_folders quiet_env fs_chapters [''b''] 1 10
     = Inr [(5, [''b'', ''Chapter 5x'']), (7, [''b'', ''Chapter 7''])]
   \<and> \<not> literal_chapter_name ''Chapter 5x''"
proof -
  have "find_chapter_folders quiet_env fs_chapters [''b''] 1 10
     = Inr [(5, [''b'', ''Chapter 5x'']), (7, [''b'', ''Chapter 7''])]" by code_simp
  moreover have "\<not> literal_chapter_name ''Chapter 5x''" by code_simp
  ultimately show ?thesis by simp
qed

text \<open>
  C5, amended: for every base directory that can be listed and every integer range, the
  Chapter Locator returns, without an error, exactly the subdirectories whose names
  begin with \<open>Chapter\<close>, one space and a run of one or more digits (whatever follows the
  run), the integer of the maximal run lying in \<open>[start, end]\<close>; the result is sorted
  ascending by that integer, whatever the order of the listing. Entries that are not
  directories and names that do not match are skipped, so the result is empty when
  nothing matches.
\<close>

theorem C5_find_chapter_folders:
  assumes "listdir e fs base = Inr items"
  shows "\<exists>r. find_chapter_folders e fs base s t = Inr r \<and> sorted (map fst r) \<and>
           set r = {(int n, base @ [item]) | n item.
                      item \<in> set items \<and> isdir fs (base @ [item]) \<and> s \<le> int n \<and> int n \<le> t \<and>
                      (\<exists>ds rest. item = ''Chapter '' @ ds @ rest \<and> ds \<noteq> [] \<and>
                         list_all py_decimal ds \<and> (rest = [] \<or> \<not> py_decimal (hd rest)) \<and>
                         n = digits_value ds)}"
proof -
  let ?r = "sort_key fst (scan_chapters fs base s t items)"
  from assms have "find_chapter_folders e fs base s t = Inr ?r"
    by (simp add: find_chapter_folders_def)
  moreover have "sorted (map fst ?r)" by simp
  moreover have "set ?r = {(int n, base @ [item]) | n item.
                      item \<in> set items \<and> isdir fs (base @ [item]) \<and> s \<le> int n \<and> int n \<le> t \<and>
                      (\<exists>ds rest. item = ''Chapter '' @ ds @ rest \<and> ds \<noteq> [] \<and>
                         list_all py_decimal ds \<and> (rest = [] \<or> \<not> py_decimal (hd rest)) \<and>
                         n = digits_value ds)}"
    unfolding set_sort set_scan_chapters chapter_match_iff by blast
  ultimately show ?thesis by blast
qed

text \<open>The amended C5 on a directory of three folders and a file, listed out of order.\<close>

theorem C5_find_chapter_folders_witness:
  "listdir quiet_env fs_chapters [''b'']
     = Inr [''Chapter 7'', ''Chapter 5x'', ''Chapter 6'', ''Chapter 12'']
   \<and> (\<exists>r. find_chapter_folders quiet_env fs_chapters [''b''] 1 10 = Inr r \<and> sorted (map fst r) \<and>
           set r = {(int n, [''b''] @ [item]) | n item.
                      item \<in> set [''Chapter 7'', ''Chapter 5x'', ''Chapter 6'', ''Chapter 12''] \<and>
                      isdir fs_chapters ([''b''] @ [item]) \<and> 1 \<le> int n \<and> int n \<le> 10 \<and>
                      (\<exists>ds rest. item = ''Chapter '' @ ds @ rest \<and> ds \<noteq> [] \<and>
                         list_all py_decimal ds \<and> (rest = [] \<or> \<not> py_decimal (hd rest)) \<and>
                         n = digits_value ds)})"
proof -
  have l: "listdir quiet_env fs_chapters [''b'']
             = Inr [''Chapter 7'', ''Chapter 5x'', ''Chapter 6'', ''Chapter 12'']"
    by code_simp
  from C5_find_chapter_folders [OF l, of 1 10] l show ?thesis by blast
qed

section \<open>C6: the Page Enumerator\<close>



section \<open>C7: the extension of an entry name\<close>




section \<open>C8: the first positional argument\<close>

text \<open>
  C8 is what the comment on line 234 says (the first argument is a cover image when it
  is not a number), and the code misses it: \<open>main\<close> tests the first argument with
  \<open>str.isdigit\<close> instead of parsing it. The argument \<open>-5\<close> is parseable as an integer
  (\<open>int\<close> accepts it, as it would for a start chapter that follows a cover), and is
  taken as the cover image path, with 3 and 7 as the start and end chapters.
\<close>

theorem C8_failing_input:
  "py_int ''-5'' = Some (- 5) \<and> parse_args [''-5'', ''3'', ''7''] = Parsed (Some ''-5'') 3 7 None"
proof -
  have "py_int ''-5'' = Some (- 5)" by code_simp
  moreover have "parse_args [''-5'', ''3'', ''7''] = Parsed (Some ''-5'') 3 7 None" by code_simp
  ultimately show ?thesis by simp
qed

section \<open>C9: a directory at the staging path\<close>



section \<open>C10: overwriting an archive\<close>




end
